theory Spec2Isabelle
  imports Main "HOL-Library.Sublist"
begin

section \<open>The PageKite launcher (pagekite_clean.py)\<close>

text \<open>
  The program is one Python script: it checks the number of command-line arguments,
  installs a handler for SIGINT, prints four lines, starts \<^verbatim>\<open>pagekite.py\<close> as a child
  process and waits for it, and turns what happened into an exit status.

  The embedding threads an explicit state through the statements of the script. The state
  holds the handler currently installed for SIGINT, the buffer of \<^verbatim>\<open>sys.stdout\<close>, and
  the chronological trace of what the process has done to the outside world (lines written
  to standard output, child processes started). Exceptions are values: a statement
  returns \<open>Inl e\<close> where Python raises \<open>e\<close>.
\<close>

subsection \<open>Exceptions, events and the state\<close>

text \<open>
  The exceptions that can travel through \<^verbatim>\<open>main\<close>. \<^verbatim>\<open>sys.exit(n)\<close> raises
  \<^verbatim>\<open>SystemExit(n)\<close>; \<^verbatim>\<open>CalledProcessError\<close> carries the return code and the command.
\<close>

datatype exc =
    CalledProcessError int "string list"
  | KeyboardInterrupt
  | SystemExit int
  | OSError string

text \<open>
  What is installed for SIGINT: Python's own handler, which raises
  \<^verbatim>\<open>KeyboardInterrupt\<close>, or the script's function \<^verbatim>\<open>signal_handler\<close>.
\<close>

datatype handler = Default_int_handler | Signal_handler

text \<open>
  The keyword arguments of \<^verbatim>\<open>subprocess.Popen\<close> that decide what the child is given.
  \<open>Inherit\<close> is Python's \<^verbatim>\<open>None\<close>: no redirection, the child uses the parent's stream.
  \<open>p_cwd = None\<close> starts the child in the parent's current directory.
\<close>

datatype redirect = Inherit | Pipe | Devnull

record popen_args =
  p_args :: "string list"
  p_stdin :: redirect
  p_stdout :: redirect
  p_stderr :: redirect
  p_cwd :: "string option"

text \<open>
  The events the outside world sees, in the order in which they happen: \<open>Print s\<close>, the
  line \<open>s\<close> of a \<^verbatim>\<open>print\<close> call is written to standard output (it leaves the buffer
  of \<^verbatim>\<open>sys.stdout\<close>); \<open>Popen a\<close>, a child process is started.
\<close>

datatype event =
    Print string
  | Popen popen_args

text \<open>
  \<open>pending\<close> holds the lines that \<^verbatim>\<open>print\<close> has put into the buffer of
  \<^verbatim>\<open>sys.stdout\<close> and that are not written yet. \<open>through\<close> is the buffering of the
  stream: asked with the buffered lines after a \<^verbatim>\<open>print\<close>, it says whether the stream
  writes them out now.
\<close>

record state =
  sigint :: handler
  through :: "string list \<Rightarrow> bool"
  pending :: "string list"
  trace :: "event list"

text \<open>
  What the script reads from the interpreter it runs on: \<^verbatim>\<open>sys.executable\<close>, whether
  the \<^verbatim>\<open>subprocess\<close> module has \<^verbatim>\<open>run\<close>, and the text that \<^verbatim>\<open>str\<close> gives for
  an exception (used by \<^verbatim>\<open>"{0}".format(e)\<close>). The rendering belongs to the standard
  library and differs between Python versions, so it is a parameter.

  \<open>stdout_through\<close> is the buffering of \<^verbatim>\<open>sys.stdout\<close>, which the script leaves as
  the interpreter set it up: on a terminal, or with \<^verbatim>\<open>python -u\<close>, every line is written
  as soon as it is printed; on a file or a pipe the stream is block-buffered and writes
  only when its buffer is full. The script never calls \<^verbatim>\<open>flush\<close>.
\<close>

record platform =
  executable :: string
  has_run :: bool
  str_exc :: "exc \<Rightarrow> string"
  stdout_through :: "string list \<Rightarrow> bool"

text \<open>
  What the operating system does once the script starts the child: the start fails
  (\<^verbatim>\<open>Popen\<close> raises \<^verbatim>\<open>OSError\<close>), the child runs and ends with a return code, or
  SIGINT reaches the launcher while it waits.
\<close>

datatype outcome =
    Spawn_failed string
  | Child_exited int
  | Sigint_while_waiting

subsection \<open>Library calls\<close>

text \<open>
  \<^verbatim>\<open>sys.stdout.flush()\<close>: the buffered lines are written in their order. The script
  does not call it; the stream does when its buffering says so, and the interpreter does
  when the process ends.
\<close>

definition stdout_flush :: "state \<Rightarrow> state" where
  "stdout_flush st = st\<lparr>pending := [], trace := trace st @ map Print (pending st)\<rparr>"

text \<open>
  \<^verbatim>\<open>print(s)\<close> puts the line \<open>s\<close> into the buffer of \<^verbatim>\<open>sys.stdout\<close>; the line
  reaches standard output when the stream writes its buffer.
\<close>

definition print :: "string \<Rightarrow> state \<Rightarrow> state" where
  "print s st =
     (let st' = st\<lparr>pending := pending st @ [s]\<rparr>
      in if through st (pending st') then stdout_flush st' else st')"

definition sys_exit :: "int \<Rightarrow> state \<Rightarrow> (exc + 'a) \<times> state" where
  "sys_exit n st = (Inl (SystemExit n), st)"

text \<open>\<^verbatim>\<open>signal.signal(signal.SIGINT, h)\<close>.\<close>

definition signal_signal :: "handler \<Rightarrow> state \<Rightarrow> state" where
  "signal_signal h st = st\<lparr>sigint := h\<rparr>"

text \<open>
  The script's handler:
  \<^verbatim>\<open>
  def signal_handler(sig, frame):
      print('\nShutting down PageKite tunnel...')
      sys.exit(0)
  \<close>
  Its two arguments are not used.
\<close>

definition signal_handler :: "state \<Rightarrow> (exc + 'a) \<times> state" where
  "signal_handler st =
     sys_exit 0 (print (CHR 0x0A # ''Shutting down PageKite tunnel...'') st)"

text \<open>SIGINT arrives: the interpreter calls whatever is installed.\<close>

definition deliver_sigint :: "state \<Rightarrow> (exc + 'a) \<times> state" where
  "deliver_sigint st =
     (case sigint st of
        Signal_handler \<Rightarrow> signal_handler st
      | Default_int_handler \<Rightarrow> (Inl KeyboardInterrupt, st))"

text \<open>
  \<^verbatim>\<open>subprocess.call(cmd)\<close>: start the child with no redirection and in the current
  directory, wait for it, return its return code. An exception raised while waiting
  passes through.
\<close>

definition subprocess_call :: "string list \<Rightarrow> outcome \<Rightarrow> state \<Rightarrow> (exc + int) \<times> state" where
  "subprocess_call cmd oc st =
     (let st' = st\<lparr>trace := trace st @
                  [Popen \<lparr>p_args = cmd, p_stdin = Inherit, p_stdout = Inherit,
                          p_stderr = Inherit, p_cwd = None\<rparr>]\<rparr>
      in case oc of
           Spawn_failed m \<Rightarrow> (Inl (OSError m), st')
         | Child_exited rc \<Rightarrow> (Inr rc, st')
         | Sigint_while_waiting \<Rightarrow> deliver_sigint st')"

text \<open>
  \<^verbatim>\<open>subprocess.run(cmd, check=check)\<close>: the same, and with \<^verbatim>\<open>check\<close> a return code
  other than 0 raises \<^verbatim>\<open>CalledProcessError(returncode, cmd)\<close>.
\<close>

definition subprocess_run :: "string list \<Rightarrow> bool \<Rightarrow> outcome \<Rightarrow> state \<Rightarrow> (exc + int) \<times> state" where
  "subprocess_run cmd check oc st =
     (case subprocess_call cmd oc st of
        (Inl e, st') \<Rightarrow> (Inl e, st')
      | (Inr rc, st') \<Rightarrow>
          if check \<and> rc \<noteq> 0 then (Inl (CalledProcessError rc cmd), st')
          else (Inr rc, st'))"

subsection \<open>The script\<close>

text \<open>
  The body of the \<^verbatim>\<open>try\<close> statement of \<^verbatim>\<open>main\<close>:
  \<^verbatim>\<open>
  if hasattr(subprocess, 'run'):
      subprocess.run(cmd, check=True)
  else:
      ret = subprocess.call(cmd)
      if ret != 0:
          raise subprocess.CalledProcessError(ret, cmd)
  \<close>
\<close>

definition try_body :: "platform \<Rightarrow> string list \<Rightarrow> outcome \<Rightarrow> state \<Rightarrow> (exc + unit) \<times> state" where
  "try_body P cmd oc st =
     (if has_run P then
        (case subprocess_run cmd True oc st of
           (Inl e, st') \<Rightarrow> (Inl e, st')
         | (Inr r, st') \<Rightarrow> (Inr (), st'))
      else
        (case subprocess_call cmd oc st of
           (Inl e, st') \<Rightarrow> (Inl e, st')
         | (Inr ret, st') \<Rightarrow>
             if ret \<noteq> 0 then (Inl (CalledProcessError ret cmd), st')
             else (Inr (), st')))"

text \<open>
  \<^verbatim>\<open>main\<close>. \<open>argv\<close> is \<^verbatim>\<open>sys.argv\<close>, so it starts with the name of the script and
  the two arguments are \<open>argv ! 1\<close> and \<open>argv ! 2\<close>, read only when \<open>argv\<close> has three
  elements. The two \<^verbatim>\<open>except\<close> clauses catch \<^verbatim>\<open>CalledProcessError\<close> and
  \<^verbatim>\<open>KeyboardInterrupt\<close>; every other exception leaves \<^verbatim>\<open>main\<close>.
\<close>

definition main :: "platform \<Rightarrow> string list \<Rightarrow> outcome \<Rightarrow> state \<Rightarrow> (exc + unit) \<times> state" where
  "main P argv oc st0 =
     (if length argv \<noteq> 3 then
        sys_exit 1
          (print ''Example: python pagekite_clean.py 11434 myapp.pagekite.me''
            (print ''Usage: python pagekite_clean.py <local_port> <subdomain.pagekite.me>'' st0))
      else
        let local_port = argv ! 1;
            subdomain = argv ! 2;
            st1 = signal_signal Signal_handler st0;
            st2 = print ''Starting PageKite tunnel...'' st1;
            st3 = print (''Local port: '' @ local_port) st2;
            st4 = print (''Public URL: https://'' @ subdomain) st3;
            st5 = print ''Press Ctrl+C to stop'' st4;
            cmd = [executable P, ''pagekite.py'', local_port, subdomain]
        in case try_body P cmd oc st5 of
             (Inl (CalledProcessError rc c), st) \<Rightarrow>
               sys_exit 1
                 (print (''PageKite failed with error: '' @ str_exc P (CalledProcessError rc c)) st)
           | (Inl KeyboardInterrupt, st) \<Rightarrow>
               sys_exit 0 (print (CHR 0x0A # ''PageKite tunnel stopped'') st)
           | (Inl e, st) \<Rightarrow> (Inl e, st)
           | (Inr u, st) \<Rightarrow> (Inr (), st))"

text \<open>
  The run of the script as a process: \<^verbatim>\<open>main()\<close> is called with Python's default
  SIGINT handler installed, an empty buffer and nothing done yet. The process ends with
  the status of a \<^verbatim>\<open>SystemExit\<close>, with status 0 when \<^verbatim>\<open>main\<close> returns, and with a
  traceback when another exception leaves \<^verbatim>\<open>main\<close> (the interpreter then exits with
  status 1). In each case the interpreter flushes \<^verbatim>\<open>sys.stdout\<close> before the process
  ends.
\<close>

datatype ending = Exited int | Traceback exc

definition initial :: "platform \<Rightarrow> state" where
  "initial P =
     \<lparr>sigint = Default_int_handler, through = stdout_through P, pending = [], trace = []\<rparr>"

definition script :: "platform \<Rightarrow> string list \<Rightarrow> outcome \<Rightarrow> ending \<times> event list" where
  "script P argv oc =
     (case main P argv oc (initial P) of
        (Inl (SystemExit n), st) \<Rightarrow> (Exited n, trace (stdout_flush st))
      | (Inl e, st) \<Rightarrow> (Traceback e, trace (stdout_flush st))
      | (Inr u, st) \<Rightarrow> (Exited 0, trace (stdout_flush st)))"

fun exit_status :: "ending \<Rightarrow> int" where
  "exit_status (Exited n) = n"
| "exit_status (Traceback e) = 1"

subsection \<open>Reading a trace\<close>

fun is_popen :: "event \<Rightarrow> bool" where
  "is_popen (Popen a) = True"
| "is_popen (Print s) = False"

fun stdout_of :: "event list \<Rightarrow> string list" where
  "stdout_of [] = []"
| "stdout_of (Print s # es) = s # stdout_of es"
| "stdout_of (Popen a # es) = stdout_of es"

fun spawns :: "event list \<Rightarrow> popen_args list" where
  "spawns [] = []"
| "spawns (Print s # es) = spawns es"
| "spawns (Popen a # es) = a # spawns es"

text \<open>The events up to the first start of a child, and the events from it on.\<close>

fun before_spawn :: "event list \<Rightarrow> event list" where
  "before_spawn [] = []"
| "before_spawn (Print s # es) = Print s # before_spawn es"
| "before_spawn (Popen a # es) = []"

fun from_spawn :: "event list \<Rightarrow> event list" where
  "from_spawn [] = []"
| "from_spawn (Print s # es) = from_spawn es"
| "from_spawn (Popen a # es) = Popen a # es"

text \<open>
  All the lines printed so far, in the order of the \<^verbatim>\<open>print\<close> calls: those already
  written and those still in the buffer.
\<close>

definition printed :: "state \<Rightarrow> string list" where
  "printed st = stdout_of (trace st) @ pending st"

text \<open>The four lines printed at the start, and the child the script asks for.\<close>

definition status_lines :: "string list \<Rightarrow> string list" where
  "status_lines argv =
     [''Starting PageKite tunnel...'',
      ''Local port: '' @ argv ! 1,
      ''Public URL: https://'' @ argv ! 2,
      ''Press Ctrl+C to stop'']"

definition child_cmd :: "platform \<Rightarrow> string list \<Rightarrow> string list" where
  "child_cmd P argv = [executable P, ''pagekite.py'', argv ! 1, argv ! 2]"

definition child_popen :: "platform \<Rightarrow> string list \<Rightarrow> popen_args" where
  "child_popen P argv =
     \<lparr>p_args = child_cmd P argv, p_stdin = Inherit, p_stdout = Inherit,
      p_stderr = Inherit, p_cwd = None\<rparr>"

subsection \<open>The kinds of run\<close>

text \<open>
  The classification of runs used by the description of the exit codes: a wrong number of
  arguments is a usage error; otherwise the run is named after what happened to the child.
  A child that could not be started is none of the four kinds the description lists.
\<close>

datatype run_kind = Usage_error | Child_success | Child_failed | User_interrupt | Spawn_error

definition run_kind :: "string list \<Rightarrow> outcome \<Rightarrow> run_kind" where
  "run_kind argv oc =
     (if length argv \<noteq> 3 then Usage_error
      else case oc of
             Spawn_failed m \<Rightarrow> Spawn_error
           | Child_exited rc \<Rightarrow> if rc = 0 then Child_success else Child_failed
           | Sigint_while_waiting \<Rightarrow> User_interrupt)"

text \<open>The lines of an output that give an example: those that start with \<open>Example\<close>.\<close>

definition example_lines :: "string list \<Rightarrow> string list" where
  "example_lines ls = filter (prefix ''Example'') ls"

subsection \<open>Sample interpreters\<close>

text \<open>
  To run the model on concrete inputs, three sample platforms. All render a
  \<^verbatim>\<open>CalledProcessError\<close> as Python 2.7 and 3.5 do,
  \<^verbatim>\<open>"Command '%s' returned non-zero exit status %d" % (cmd, returncode)\<close>, where the
  command is a list of strings and each string is shown between single quotes (as
  \<^verbatim>\<open>repr\<close> does for a string with no quote, backslash or control character). The first
  has \<^verbatim>\<open>subprocess.run\<close>, the second has not; both run on a terminal, where every
  printed line is written at once. The third is the first with standard output sent to a
  file or a pipe: the stream is block-buffered, and the few short lines of this script
  never fill its buffer, so nothing is written before the process ends.
\<close>

fun dec :: "nat \<Rightarrow> string" where
  "dec n =
     (if n < 10 then [''0123456789'' ! n]
      else dec (n div 10) @ [''0123456789'' ! (n mod 10)])"

declare dec.simps [simp del]

definition str_int :: "int \<Rightarrow> string" where
  "str_int i = (if i < 0 then ''-'' @ dec (nat (- i)) else dec (nat i))"

definition repr_str :: "string \<Rightarrow> string" where
  "repr_str s = [CHR 0x27] @ s @ [CHR 0x27]"

fun join_comma :: "string list \<Rightarrow> string" where
  "join_comma [] = []"
| "join_comma [x] = x"
| "join_comma (x # y # xs) = x @ '', '' @ join_comma (y # xs)"

definition str_list :: "string list \<Rightarrow> string" where
  "str_list xs = ''['' @ join_comma (map repr_str xs) @ '']''"

fun str_exception :: "exc \<Rightarrow> string" where
  "str_exception (CalledProcessError rc cmd) =
     ''Command '' @ [CHR 0x27] @ str_list cmd @ [CHR 0x27] @
     '' returned non-zero exit status '' @ str_int rc"
| "str_exception KeyboardInterrupt = []"
| "str_exception (SystemExit n) = str_int n"
| "str_exception (OSError m) = m"

definition python35 :: platform where
  "python35 =
     \<lparr>executable = ''/usr/bin/python3'', has_run = True, str_exc = str_exception,
      stdout_through = (\<lambda>ls. True)\<rparr>"

definition python27 :: platform where
  "python27 =
     \<lparr>executable = ''/usr/bin/python2.7'', has_run = False, str_exc = str_exception,
      stdout_through = (\<lambda>ls. True)\<rparr>"

definition python35_piped :: platform where
  "python35_piped =
     \<lparr>executable = ''/usr/bin/python3'', has_run = True, str_exc = str_exception,
      stdout_through = (\<lambda>ls. False)\<rparr>"

subsection \<open>Reading a trace: appended events\<close>

lemma stdout_of_append: "stdout_of (xs @ ys) = stdout_of xs @ stdout_of ys"
  by (induction xs rule: stdout_of.induct) simp_all

lemma stdout_of_prints: "stdout_of (map Print ls) = ls"
  by (induction ls) simp_all

lemma spawns_append: "spawns (xs @ ys) = spawns xs @ spawns ys"
  by (induction xs rule: spawns.induct) simp_all

lemma spawns_prints: "spawns (map Print ls) = []"
  by (induction ls) simp_all

subsection \<open>What print and the final flush do, whatever the buffering\<close>

lemma sigint_print: "sigint (print s st) = sigint st"
  by (simp add: print_def stdout_flush_def Let_def)

lemma printed_print: "printed (print s st) = printed st @ [s]"
  by (simp add: printed_def print_def stdout_flush_def Let_def stdout_of_append stdout_of_prints)

lemma printed_popen: "printed (st\<lparr>trace := trace st @ [Popen a]\<rparr>) = printed st"
  by (simp add: printed_def stdout_of_append)

lemma printed_sigint: "printed (st\<lparr>sigint := h\<rparr>) = printed st"
  by (simp add: printed_def)

lemma printed_initial: "printed (initial P) = []"
  by (simp add: printed_def initial_def)

lemma stdout_of_flush: "stdout_of (trace (stdout_flush st)) = printed st"
  by (simp add: printed_def stdout_flush_def stdout_of_append stdout_of_prints)

lemma spawns_print: "spawns (trace (print s st)) = spawns (trace st)"
  by (simp add: print_def stdout_flush_def Let_def spawns_append spawns_prints)

lemma spawns_flush: "spawns (trace (stdout_flush st)) = spawns (trace st)"
  by (simp add: stdout_flush_def spawns_append spawns_prints)

lemma spawns_initial: "spawns (trace (initial P)) = []"
  by (simp add: initial_def)

text \<open>A line printed last is the last line written when the process ends.\<close>

lemma flush_print: "trace (stdout_flush (print s st)) = trace (stdout_flush st) @ [Print s]"
  by (simp add: print_def stdout_flush_def Let_def)

lemma flush_initial: "trace (stdout_flush (initial P)) = []"
  by (simp add: initial_def stdout_flush_def)

subsection \<open>What a run does, case by case\<close>

lemmas flow = script_def main_def try_body_def subprocess_run_def subprocess_call_def
  deliver_sigint_def signal_handler_def sys_exit_def signal_signal_def Let_def

lemmas evaluation = flow print_def stdout_flush_def initial_def

lemma script_usage:
  "length argv \<noteq> 3 \<Longrightarrow>
   script P argv oc =
     (Exited 1,
      [Print ''Usage: python pagekite_clean.py <local_port> <subdomain.pagekite.me>'',
       Print ''Example: python pagekite_clean.py 11434 myapp.pagekite.me''])"
  by (simp add: script_def main_def sys_exit_def flush_print flush_initial)

lemma script_ending:
  "length argv = 3 \<Longrightarrow>
   fst (script P argv oc) =
     (case oc of
        Spawn_failed m \<Rightarrow> Traceback (OSError m)
      | Child_exited rc \<Rightarrow> if rc = 0 then Exited 0 else Exited 1
      | Sigint_while_waiting \<Rightarrow> Exited 0)"
  by (cases oc) (simp_all add: flow sigint_print)

lemma script_stdout:
  "length argv = 3 \<Longrightarrow>
   stdout_of (snd (script P argv oc)) =
     status_lines argv @
     (case oc of
        Spawn_failed m \<Rightarrow> []
      | Child_exited rc \<Rightarrow>
          if rc = 0 then []
          else [''PageKite failed with error: '' @
                str_exc P (CalledProcessError rc (child_cmd P argv))]
      | Sigint_while_waiting \<Rightarrow> [CHR 0x0A # ''Shutting down PageKite tunnel...''])"
  by (cases oc)
     (simp_all add: flow sigint_print status_lines_def child_cmd_def stdout_of_flush
        printed_print printed_popen printed_sigint printed_initial)

lemma script_spawns_once:
  "length argv = 3 \<Longrightarrow> spawns (snd (script P argv oc)) = [child_popen P argv]"
  by (cases oc)
     (simp_all add: flow sigint_print child_popen_def child_cmd_def spawns_flush spawns_print
        spawns_append spawns_initial)

lemma script_last_failed:
  "length argv = 3 \<Longrightarrow> rc \<noteq> 0 \<Longrightarrow>
   last (snd (script P argv (Child_exited rc))) =
     Print (''PageKite failed with error: '' @
            str_exc P (CalledProcessError rc (child_cmd P argv)))"
  by (simp add: flow child_cmd_def flush_print)

lemma script_last_sigint:
  "length argv = 3 \<Longrightarrow>
   last (snd (script P argv Sigint_while_waiting)) =
     Print (CHR 0x0A # ''Shutting down PageKite tunnel...'')"
  by (simp add: flow sigint_print flush_print)

text \<open>
  On a stream that writes every line as soon as it is printed (a terminal), the four
  status lines are written before the child is started.
\<close>

lemma print_write_through:
  "\<forall>ls. through st ls \<Longrightarrow> pending st = [] \<Longrightarrow>
   print s st = st\<lparr>trace := trace st @ [Print s]\<rparr>"
  by (cases st) (simp add: print_def stdout_flush_def Let_def)

lemma write_through_status_lines_first:
  assumes "length argv = 3" and "\<forall>ls. stdout_through P ls"
  shows "before_spawn (snd (script P argv oc)) = map Print (status_lines argv)"
  using assms
  by (cases oc)
     (simp_all add: flow initial_def print_write_through stdout_flush_def status_lines_def)

lemma argv_tail:
  "length argv = 3 \<Longrightarrow> tl argv = [argv ! 1, argv ! 2]"
  by (cases argv; cases "tl argv"; cases "tl (tl argv)") auto

section \<open>The claims\<close>

subsection \<open>C1: a failing child\<close>

text \<open>
  C1. In a run with exactly two arguments whose child ends with a return code \<open>N\<close> other
  than 0, the last thing the launcher does is print the line
  \<^verbatim>\<open>PageKite failed with error: \<close> followed by the text of the exception
  \<^verbatim>\<open>CalledProcessError(N, cmd)\<close>, the exception that carries \<open>N\<close>; it then exits with
  status 1.
\<close>

theorem child_failure_reported:
  assumes "length argv = 3" and "N \<noteq> 0"
  shows "fst (script P argv (Child_exited N)) = Exited 1 \<and>
         exit_status (fst (script P argv (Child_exited N))) = 1 \<and>
         last (snd (script P argv (Child_exited N))) =
           Print (''PageKite failed with error: '' @
                  str_exc P (CalledProcessError N
                    [executable P, ''pagekite.py'', argv ! 1, argv ! 2]))"
  using assms by (simp add: script_ending script_last_failed child_cmd_def)

theorem child_failure_reported_witness:
  "length [''pagekite_clean.py'', ''11434'', ''myapp.pagekite.me''] = 3 \<and> (2::int) \<noteq> 0 \<and>
   fst (script python35 [''pagekite_clean.py'', ''11434'', ''myapp.pagekite.me'']
          (Child_exited 2)) = Exited 1 \<and>
   last (snd (script python35 [''pagekite_clean.py'', ''11434'', ''myapp.pagekite.me'']
          (Child_exited 2))) =
     Print (''PageKite failed with error: Command '' @ [CHR 0x27] @ ''['' @
            repr_str ''/usr/bin/python3'' @ '', '' @ repr_str ''pagekite.py'' @ '', '' @
            repr_str ''11434'' @ '', '' @ repr_str ''myapp.pagekite.me'' @ '']'' @
            [CHR 0x27] @ '' returned non-zero exit status 2'')"
proof -
  have len: "length [''pagekite_clean.py'', ''11434'', ''myapp.pagekite.me''] = 3"
    by simp
  have nz: "(2::int) \<noteq> 0"
    by simp
  show ?thesis
    using child_failure_reported [OF len nz, of python35]
    by (simp add: python35_def str_list_def repr_str_def str_int_def dec.simps)
qed

subsection \<open>C2: SIGINT while the child runs\<close>

text \<open>
  C2. In a run with exactly two arguments, when SIGINT reaches the launcher while it
  waits for the child, the last thing the launcher does is print the shutdown line of
  \<^verbatim>\<open>signal_handler\<close>, and it exits with status 0, which is not an error status.
\<close>

theorem interrupt_is_graceful:
  assumes "length argv = 3"
  shows "fst (script P argv Sigint_while_waiting) = Exited 0 \<and>
         exit_status (fst (script P argv Sigint_while_waiting)) = 0 \<and>
         last (snd (script P argv Sigint_while_waiting)) =
           Print (CHR 0x0A # ''Shutting down PageKite tunnel...'')"
  using assms by (simp add: script_ending script_last_sigint)

theorem interrupt_is_graceful_witness:
  "length [''pagekite_clean.py'', ''8080'', ''demo.pagekite.me''] = 3 \<and>
   script python27 [''pagekite_clean.py'', ''8080'', ''demo.pagekite.me'']
     Sigint_while_waiting =
   (Exited 0,
    [Print ''Starting PageKite tunnel...'',
     Print ''Local port: 8080'',
     Print ''Public URL: https://demo.pagekite.me'',
     Print ''Press Ctrl+C to stop'',
     Popen \<lparr>p_args = [''/usr/bin/python2.7'', ''pagekite.py'', ''8080'', ''demo.pagekite.me''],
            p_stdin = Inherit, p_stdout = Inherit, p_stderr = Inherit, p_cwd = None\<rparr>,
     Print (CHR 0x0A # ''Shutting down PageKite tunnel...'')])"
proof -
  have len: "length [''pagekite_clean.py'', ''8080'', ''demo.pagekite.me''] = 3"
    by simp
  show ?thesis
    using interrupt_is_graceful [OF len, of python27]
    by (simp add: evaluation python27_def)
qed

subsection \<open>C3: a child that succeeds\<close>

text \<open>
  C3. In a run with exactly two arguments whose child ends with return code 0, the
  launcher exits with status 0.
\<close>

theorem child_success_exit_zero:
  assumes "length argv = 3"
  shows "fst (script P argv (Child_exited 0)) = Exited 0 \<and>
         exit_status (fst (script P argv (Child_exited 0))) = 0"
  using assms by (simp add: script_ending)

theorem child_success_exit_zero_witness:
  "length [''pagekite_clean.py'', ''11434'', ''myapp.pagekite.me''] = 3 \<and>
   exit_status (fst (script python35 [''pagekite_clean.py'', ''11434'', ''myapp.pagekite.me'']
     (Child_exited 0))) = 0 \<and>
   exit_status (fst (script python27 [''pagekite_clean.py'', ''11434'', ''myapp.pagekite.me'']
     (Child_exited 0))) = 0"
proof -
  have len: "length [''pagekite_clean.py'', ''11434'', ''myapp.pagekite.me''] = 3"
    by simp
  show ?thesis
    using child_success_exit_zero [OF len, of python35]
      child_success_exit_zero [OF len, of python27]
    by simp
qed

subsection \<open>C4: a wrong number of arguments\<close>

text \<open>
  C4, as stated: with a number of arguments other than two the launcher prints a usage
  message and two example lines. It is false: run with no argument, the script prints
  two lines in all, the usage line and one line that gives an example.
\<close>

theorem usage_two_examples_counterexample:
  "stdout_of (snd (script python35 [''pagekite_clean.py''] (Child_exited 0))) =
     [''Usage: python pagekite_clean.py <local_port> <subdomain.pagekite.me>'',
      ''Example: python pagekite_clean.py 11434 myapp.pagekite.me''] \<and>
   length (example_lines
     (stdout_of (snd (script python35 [''pagekite_clean.py''] (Child_exited 0))))) = 1 \<and>
   length (example_lines
     (stdout_of (snd (script python35 [''pagekite_clean.py''] (Child_exited 0))))) \<noteq> 2"
  by (simp add: script_usage example_lines_def)

text \<open>
  C4, amended: in every run whose number of arguments is not two, the launcher prints
  exactly two lines to standard output, the usage line and one example line, exits with
  status 1, and starts no child process.
\<close>

theorem usage_error:
  assumes "length argv \<noteq> 3"
  shows "stdout_of (snd (script P argv oc)) =
           [''Usage: python pagekite_clean.py <local_port> <subdomain.pagekite.me>'',
            ''Example: python pagekite_clean.py 11434 myapp.pagekite.me''] \<and>
         length (example_lines (stdout_of (snd (script P argv oc)))) = 1 \<and>
         fst (script P argv oc) = Exited 1 \<and>
         exit_status (fst (script P argv oc)) = 1 \<and>
         spawns (snd (script P argv oc)) = []"
  using assms by (simp add: script_usage example_lines_def)

theorem usage_error_witness:
  "length [''pagekite_clean.py'', ''11434''] \<noteq> 3 \<and>
   length [''pagekite_clean.py'', ''11434'', ''myapp.pagekite.me'', ''extra''] \<noteq> 3 \<and>
   script python35 [''pagekite_clean.py'', ''11434''] (Child_exited 0) =
     (Exited 1,
      [Print ''Usage: python pagekite_clean.py <local_port> <subdomain.pagekite.me>'',
       Print ''Example: python pagekite_clean.py 11434 myapp.pagekite.me'']) \<and>
   spawns (snd (script python35 [''pagekite_clean.py'', ''11434''] (Child_exited 0))) = [] \<and>
   exit_status (fst (script python27
     [''pagekite_clean.py'', ''11434'', ''myapp.pagekite.me'', ''extra'']
     Sigint_while_waiting)) = 1"
proof -
  have one: "length [''pagekite_clean.py'', ''11434''] \<noteq> 3"
    by simp
  have three: "length [''pagekite_clean.py'', ''11434'', ''myapp.pagekite.me'', ''extra''] \<noteq> 3"
    by simp
  show ?thesis
    using usage_error [OF one, of python35 "Child_exited 0"]
      usage_error [OF three, of python27 Sigint_while_waiting]
    by (simp add: script_usage)
qed

subsection \<open>C5: what is printed before the child starts\<close>

text \<open>
  C5 says that in a run with exactly two arguments the three status lines and the hint
  are output before the child is started. The script makes the four \<^verbatim>\<open>print\<close> calls
  before it starts the child, but it never flushes \<^verbatim>\<open>sys.stdout\<close>. With standard
  output sent to a file or a pipe and the arguments \<^verbatim>\<open>11434\<close> and
  \<^verbatim>\<open>myapp.pagekite.me\<close>, nothing is written before the child is started: the child
  comes first, and the four lines are written when the launcher ends.
\<close>

theorem status_lines_after_spawn_when_piped:
  "before_spawn (snd (script python35_piped
     [''pagekite_clean.py'', ''11434'', ''myapp.pagekite.me''] (Child_exited 0))) = [] \<and>
   snd (script python35_piped
     [''pagekite_clean.py'', ''11434'', ''myapp.pagekite.me''] (Child_exited 0)) =
     [Popen \<lparr>p_args = [''/usr/bin/python3'', ''pagekite.py'', ''11434'', ''myapp.pagekite.me''],
            p_stdin = Inherit, p_stdout = Inherit, p_stderr = Inherit, p_cwd = None\<rparr>,
      Print ''Starting PageKite tunnel...'',
      Print ''Local port: 11434'',
      Print ''Public URL: https://myapp.pagekite.me'',
      Print ''Press Ctrl+C to stop'']"
  by (simp add: evaluation python35_piped_def)

subsection \<open>C6: the child process\<close>

text \<open>
  C6. In a run with exactly two arguments, whatever happens to the child, the launcher
  starts a child exactly once. Its command is the interpreter, \<^verbatim>\<open>pagekite.py\<close>, and then
  the two arguments of the launcher, unchanged and in their order; no stream is
  redirected, so the child has the launcher's standard input, output and error.
\<close>

theorem child_spawned_once:
  assumes "length argv = 3"
  shows "spawns (snd (script P argv oc)) =
           [\<lparr>p_args = [executable P, ''pagekite.py'', argv ! 1, argv ! 2],
             p_stdin = Inherit, p_stdout = Inherit, p_stderr = Inherit, p_cwd = None\<rparr>] \<and>
         map (drop 2 \<circ> p_args) (spawns (snd (script P argv oc))) = [tl argv]"
  using assms by (simp add: script_spawns_once child_popen_def child_cmd_def argv_tail)

theorem child_spawned_once_witness:
  "length [''pagekite_clean.py'', ''11434'', ''myapp.pagekite.me''] = 3 \<and>
   spawns (snd (script python27 [''pagekite_clean.py'', ''11434'', ''myapp.pagekite.me'']
     (Child_exited 1))) =
     [\<lparr>p_args = [''/usr/bin/python2.7'', ''pagekite.py'', ''11434'', ''myapp.pagekite.me''],
       p_stdin = Inherit, p_stdout = Inherit, p_stderr = Inherit, p_cwd = None\<rparr>]"
proof -
  have len: "length [''pagekite_clean.py'', ''11434'', ''myapp.pagekite.me''] = 3"
    by simp
  show ?thesis
    using child_spawned_once [OF len, of python27 "Child_exited 1"]
    by (simp add: python27_def)
qed

subsection \<open>C7: the exit codes\<close>

text \<open>
  C7. In every run that is a usage error, a child success, a child failure or an
  interrupt during the wait, the exit status of the launcher is 0 or 1; it is 0 exactly
  when the run is a child success or an interrupt, and 1 exactly when the run is a usage
  error or a child failure.
\<close>

theorem exit_codes:
  assumes "run_kind argv oc \<noteq> Spawn_error"
  shows "(exit_status (fst (script P argv oc)) = 0 \<or>
          exit_status (fst (script P argv oc)) = 1) \<and>
         (exit_status (fst (script P argv oc)) = 0 \<longleftrightarrow>
            run_kind argv oc = Child_success \<or> run_kind argv oc = User_interrupt) \<and>
         (exit_status (fst (script P argv oc)) = 1 \<longleftrightarrow>
            run_kind argv oc = Usage_error \<or> run_kind argv oc = Child_failed)"
proof (cases "length argv = 3")
  case False
  then show ?thesis
    by (simp add: script_usage run_kind_def)
next
  case True
  show ?thesis
  proof (cases oc)
    case (Spawn_failed m)
    with True assms show ?thesis
      by (simp add: run_kind_def)
  next
    case (Child_exited rc)
    with True show ?thesis
      by (simp add: script_ending run_kind_def)
  next
    case Sigint_while_waiting
    with True show ?thesis
      by (simp add: script_ending run_kind_def)
  qed
qed

theorem exit_codes_witness:
  "run_kind [''pagekite_clean.py''] (Child_exited 0) = Usage_error \<and>
   exit_status (fst (script python35 [''pagekite_clean.py''] (Child_exited 0))) = 1 \<and>
   run_kind [''pagekite_clean.py'', ''11434'', ''myapp.pagekite.me''] (Child_exited 0) =
     Child_success \<and>
   exit_status (fst (script python35 [''pagekite_clean.py'', ''11434'', ''myapp.pagekite.me'']
     (Child_exited 0))) = 0 \<and>
   run_kind [''pagekite_clean.py'', ''11434'', ''myapp.pagekite.me''] (Child_exited 127) =
     Child_failed \<and>
   exit_status (fst (script python35 [''pagekite_clean.py'', ''11434'', ''myapp.pagekite.me'']
     (Child_exited 127))) = 1 \<and>
   run_kind [''pagekite_clean.py'', ''11434'', ''myapp.pagekite.me''] Sigint_while_waiting =
     User_interrupt \<and>
   exit_status (fst (script python35 [''pagekite_clean.py'', ''11434'', ''myapp.pagekite.me'']
     Sigint_while_waiting)) = 0"
proof -
  have usage: "run_kind [''pagekite_clean.py''] (Child_exited 0) \<noteq> Spawn_error"
    by (simp add: run_kind_def)
  have success:
    "run_kind [''pagekite_clean.py'', ''11434'', ''myapp.pagekite.me''] (Child_exited 0)
       \<noteq> Spawn_error"
    by (simp add: run_kind_def)
  have failed:
    "run_kind [''pagekite_clean.py'', ''11434'', ''myapp.pagekite.me''] (Child_exited 127)
       \<noteq> Spawn_error"
    by (simp add: run_kind_def)
  have interrupt:
    "run_kind [''pagekite_clean.py'', ''11434'', ''myapp.pagekite.me''] Sigint_while_waiting
       \<noteq> Spawn_error"
    by (simp add: run_kind_def)
  show ?thesis
    using exit_codes [OF usage, of python35] exit_codes [OF success, of python35]
      exit_codes [OF failed, of python35] exit_codes [OF interrupt, of python35]
    by (simp add: run_kind_def)
qed

subsection \<open>C8: the example invocation\<close>

text \<open>
  C8 says that the run with the arguments \<^verbatim>\<open>11434\<close> and \<^verbatim>\<open>myapp.pagekite.me\<close>
  prints a line containing \<^verbatim>\<open>https://myapp.pagekite.me\<close> before it starts the child.
  With standard output sent to a file or a pipe, the line
  \<^verbatim>\<open>Public URL: https://myapp.pagekite.me\<close> is not among the events before the child
  is started; it is written after the start, here after SIGINT has ended the wait.
\<close>

theorem example_public_url_after_spawn_when_piped:
  "Print ''Public URL: https://myapp.pagekite.me'' \<notin>
     set (before_spawn (snd (script python35_piped
       [''pagekite_clean.py'', ''11434'', ''myapp.pagekite.me''] Sigint_while_waiting))) \<and>
   from_spawn (snd (script python35_piped
     [''pagekite_clean.py'', ''11434'', ''myapp.pagekite.me''] Sigint_while_waiting)) =
     [Popen \<lparr>p_args = [''/usr/bin/python3'', ''pagekite.py'', ''11434'', ''myapp.pagekite.me''],
            p_stdin = Inherit, p_stdout = Inherit, p_stderr = Inherit, p_cwd = None\<rparr>,
      Print ''Starting PageKite tunnel...'',
      Print ''Local port: 11434'',
      Print ''Public URL: https://myapp.pagekite.me'',
      Print ''Press Ctrl+C to stop'',
      Print (CHR 0x0A # ''Shutting down PageKite tunnel...'')]"
  by (simp add: evaluation python35_piped_def)

subsection \<open>C9: a child that cannot be started\<close>

text \<open>
  C9. In a run with exactly two arguments in which starting the child raises
  \<^verbatim>\<open>OSError\<close>, no \<^verbatim>\<open>except\<close> clause of \<^verbatim>\<open>main\<close> catches the exception: the run
  ends with that exception unhandled, and the output is the four status lines only, with
  no line that starts with \<^verbatim>\<open>PageKite failed\<close>.
\<close>

theorem spawn_failure_unhandled:
  assumes "length argv = 3"
  shows "fst (script P argv (Spawn_failed m)) = Traceback (OSError m) \<and>
         stdout_of (snd (script P argv (Spawn_failed m))) =
           [''Starting PageKite tunnel...'',
            ''Local port: '' @ argv ! 1,
            ''Public URL: https://'' @ argv ! 2,
            ''Press Ctrl+C to stop''] \<and>
         filter (prefix ''PageKite failed'')
           (stdout_of (snd (script P argv (Spawn_failed m)))) = []"
  using assms by (simp add: script_ending script_stdout status_lines_def)

theorem spawn_failure_unhandled_witness:
  "length [''pagekite_clean.py'', ''11434'', ''myapp.pagekite.me''] = 3 \<and>
   script python35 [''pagekite_clean.py'', ''11434'', ''myapp.pagekite.me'']
     (Spawn_failed ''[Errno 13] Permission denied'') =
   (Traceback (OSError ''[Errno 13] Permission denied''),
    [Print ''Starting PageKite tunnel...'',
     Print ''Local port: 11434'',
     Print ''Public URL: https://myapp.pagekite.me'',
     Print ''Press Ctrl+C to stop'',
     Popen \<lparr>p_args = [''/usr/bin/python3'', ''pagekite.py'', ''11434'', ''myapp.pagekite.me''],
            p_stdin = Inherit, p_stdout = Inherit, p_stderr = Inherit, p_cwd = None\<rparr>])"
proof -
  have len: "length [''pagekite_clean.py'', ''11434'', ''myapp.pagekite.me''] = 3"
    by simp
  show ?thesis
    using spawn_failure_unhandled [OF len, of python35 "''[Errno 13] Permission denied''"]
    by (simp add: evaluation python35_def)
qed

subsection \<open>C10: which program the child runs\<close>

text \<open>
  C10. In a run with exactly two arguments, whatever the arguments are and whatever
  happens to the child, the command of the child starts with \<^verbatim>\<open>sys.executable\<close> and the
  literal relative path \<^verbatim>\<open>pagekite.py\<close>, and the child is given no working directory
  of its own, so it starts in the launcher's current directory.
\<close>

theorem tunnel_program_fixed:
  assumes "length argv = 3"
  shows "map (take 2 \<circ> p_args) (spawns (snd (script P argv oc))) =
           [[executable P, ''pagekite.py'']] \<and>
         map p_cwd (spawns (snd (script P argv oc))) = [None]"
  using assms by (simp add: script_spawns_once child_popen_def child_cmd_def)

theorem tunnel_program_fixed_witness:
  "length [''/opt/tools/pagekite_clean.py'', ''8080'', ''demo.pagekite.me''] = 3 \<and>
   map (take 2 \<circ> p_args)
     (spawns (snd (script python35
        [''/opt/tools/pagekite_clean.py'', ''8080'', ''demo.pagekite.me''] (Child_exited 0)))) =
     [[''/usr/bin/python3'', ''pagekite.py'']] \<and>
   map p_cwd
     (spawns (snd (script python35
        [''/opt/tools/pagekite_clean.py'', ''8080'', ''demo.pagekite.me''] (Child_exited 0)))) =
     [None]"
proof -
  have len: "length [''/opt/tools/pagekite_clean.py'', ''8080'', ''demo.pagekite.me''] = 3"
    by simp
  show ?thesis
    using tunnel_program_fixed [OF len, of python35 "Child_exited 0"]
    by (simp add: python35_def)
qed

end
